theory Spec2Isabelle
  imports Complex_Main
begin

section \<open>The Tronity vehicle adapter (vehicle/tronity.go)\<close>

text \<open>
  The adapter reads one bulk snapshot through a cached getter and projects three typed
  views from it (\<open>SoC\<close>, \<open>Range\<close>, \<open>Status\<close>); it starts and stops charging with a
  bare POST; it is constructed from a configuration by running a fixed sequence of steps,
  each of which may fail. The collaborators of other packages (HTTP transport, JSON
  decoding, the OAuth2 client, the cache) enter the model as the outcome they hand back
  to the adapter.
\<close>

subsection \<open>Errors and interface values\<close>

text \<open>
  A Go \<open>error\<close> value is \<open>None\<close> when it is \<open>nil\<close>. The adapter tells one dynamic
  error type from all the others: \<open>request.StatusError\<close>, which carries the response it
  was made from.
\<close>

record response =
  StatusCode :: int

datatype error =
    StatusError response
  | OtherError string

text \<open>
  The record \<open>tronity.Bulk\<close> is declared in package \<open>vehicle/tronity\<close>; the adapter
  reads three of its fields: \<open>Level\<close>, \<open>Range\<close> (here \<open>Bulk_Range\<close>, as \<open>Range\<close>
  is a constant of HOL) and \<open>Charging\<close>. The first two are numbers that the adapter
  passes on without arithmetic.
\<close>

record Bulk =
  Level :: real
  Bulk_Range :: real
  Charging :: string

text \<open>
  The cached getter has type \<open>func() (interface{}, error)\<close>. An \<open>interface{}\<close> value is
  \<open>nil\<close>, a \<open>tronity.Bulk\<close>, or a value of some other dynamic type (named by a tag).
\<close>

datatype iface =
    NilVal
  | BulkVal Bulk
  | OtherVal string

type_synonym getter_result = "iface \<times> error option"

definition zero_Bulk :: Bulk where
  "zero_Bulk = \<lparr>Level = 0, Bulk_Range = 0, Charging = []\<rparr>"

text \<open>The comma-ok type assertion \<open>res, ok := res.(tronity.Bulk)\<close>.\<close>

fun assert_Bulk :: "iface \<Rightarrow> Bulk \<times> bool" where
  "assert_Bulk (BulkVal b) = (b, True)"
| "assert_Bulk NilVal = (zero_Bulk, False)"
| "assert_Bulk (OtherVal t) = (zero_Bulk, False)"

text \<open>
  Modelled from the spec: \<open>api.ChargeStatus\<close> and its constants are declared in package
  \<open>api\<close>, which is not part of the adapter's file. The spec gives the enumeration as
  disconnected (\<open>StatusA\<close>, as the adapter's own comment says), connected-not-charging
  (\<open>StatusB\<close>) and charging (\<open>StatusC\<close>).
\<close>

datatype ChargeStatus = StatusA | StatusB | StatusC

subsection \<open>Typed projections\<close>

text \<open>
  Each projection calls the cached getter \<open>v.bulkG()\<close> once; the argument is what that
  call returned.
\<close>

definition SoC :: "getter_result \<Rightarrow> real \<times> error option" where
  "SoC g =
     (let (res, err) = g; (res', ok) = assert_Bulk res
      in if err = None \<and> ok then (Level res', None) else (0, err))"

definition Status :: "getter_result \<Rightarrow> ChargeStatus \<times> error option" where
  "Status g =
     (let status = StatusA; (res, err) = g; (res', ok) = assert_Bulk res;
          status = (if err = None \<and> ok
                    then (if Charging res' = ''Charging'' then StatusC else status)
                    else status)
      in (status, err))"

text \<open>
  \<open>Range\<close> (here \<open>Tronity_Range\<close>) converts the field with \<open>int64(res.Range)\<close>; the conversion is the
  language's and is a parameter here.
\<close>

definition Tronity_Range :: "(real \<Rightarrow> int) \<Rightarrow> getter_result \<Rightarrow> int \<times> error option" where
  "Tronity_Range to_int64 g =
     (let (res, err) = g; (res', ok) = assert_Bulk res
      in if err = None \<and> ok then (to_int64 (Bulk_Range res'), None) else (0, err))"

subsection \<open>Charge actions\<close>

text \<open>
  Modelled from the spec: \<open>request.ResponseError\<close> and \<open>StatusError.HasStatus\<close> are
  declared in package \<open>util/request\<close>, which is not part of the adapter's file. By the
  spec every response that is not 2xx is an error; the error is a \<open>StatusError\<close> holding
  the response, and \<open>HasStatus\<close> asks whether the response's status is one of the given
  codes.
\<close>

definition ResponseError :: "response \<Rightarrow> error option" where
  "ResponseError resp =
     (if StatusCode resp < 200 \<or> 300 \<le> StatusCode resp then Some (StatusError resp) else None)"

definition HasStatus :: "response \<Rightarrow> int list \<Rightarrow> bool" where
  "HasStatus resp codes = (StatusCode resp \<in> set codes)"

text \<open>\<open>http.StatusMethodNotAllowed\<close> of the standard library.\<close>

definition StatusMethodNotAllowed :: int where
  "StatusMethodNotAllowed = 405"

text \<open>
  \<open>v.Post(uri, "", nil)\<close> is the HTTP client's POST: it hands back a response or a
  transport error. The first argument of \<open>post\<close> is that client.
\<close>

definition post :: "(string \<Rightarrow> error + response) \<Rightarrow> string \<Rightarrow> error option" where
  "post Post uri =
     (let err = (case Post uri of Inl e \<Rightarrow> Some e | Inr resp \<Rightarrow> ResponseError resp)
      in case err of
           Some (StatusError resp) \<Rightarrow>
             if HasStatus resp [StatusMethodNotAllowed] then None else err
         | Some (OtherError m) \<Rightarrow> err
         | None \<Rightarrow> err)"

subsection \<open>The adapter\<close>

record oauth2_Config =
  ClientID :: string
  ClientSecret :: string
  TokenURL :: string

text \<open>
  An instant (\<open>time.Time\<close>) is a number of nanoseconds; \<open>0\<close> is the zero instant, the
  value of a field that was never set.
\<close>

record oauth2_Token =
  AccessToken :: string
  RefreshToken :: string
  Expiry :: int

definition zero_Token :: oauth2_Token where
  "zero_Token = \<lparr>AccessToken = [], RefreshToken = [], Expiry = 0\<rparr>"

text \<open>
  The two token sources of the constructor: \<open>oauth.RefreshTokenSource(token, v)\<close>, which
  refreshes through the adapter's own \<open>RefreshToken\<close> (app flow), and
  \<open>oc.TokenSource(ctx, token)\<close>, the OAuth2 client's refresh-token exchange.
\<close>

datatype TokenSource =
    RefreshTokenSource oauth2_Token
  | ConfigTokenSource oauth2_Config oauth2_Token

text \<open>
  The fields of \<open>Tronity\<close> that the constructor sets: the OAuth2 configuration, the
  vehicle id, the source of the authenticated transport, and the time-to-live handed to
  the cache of \<open>bulkG\<close>. Titles, logger and HTTP helper carry no behaviour here.
\<close>

record Tronity =
  oc :: oauth2_Config
  vid :: string
  Source :: TokenSource
  bulkG_ttl :: int

definition StartCharge ::
  "string \<Rightarrow> (string \<Rightarrow> error + response) \<Rightarrow> Tronity \<Rightarrow> error option" where
  "StartCharge URI Post v = post Post (URI @ ''/v1/vehicles/'' @ vid v @ ''/charge_start'')"

definition StopCharge ::
  "string \<Rightarrow> (string \<Rightarrow> error + response) \<Rightarrow> Tronity \<Rightarrow> error option" where
  "StopCharge URI Post v = post Post (URI @ ''/v1/vehicles/'' @ vid v @ ''/charge_stop'')"

subsection \<open>Token refresh in the app flow\<close>

text \<open>
  A request as \<open>request.New\<close> builds it: method, address, the JSON object of the body as
  its list of members, and the headers. \<open>http.NewRequest\<close> may reject the method or the
  address; \<open>validate\<close> is that check.
\<close>

record request =
  Method :: string
  URL :: string
  Body :: "(string \<times> string) list"
  Header :: "(string \<times> string) list"

definition MethodPost :: string where
  "MethodPost = ''POST''"

definition request_New ::
  "(string \<Rightarrow> string \<Rightarrow> error option) \<Rightarrow> string \<Rightarrow> string \<Rightarrow> (string \<times> string) list \<Rightarrow>
   (string \<times> string) list \<Rightarrow> error + request" where
  "request_New validate method uri data headers =
     (case validate method uri of
        Some err \<Rightarrow> Inl err
      | None \<Rightarrow> Inr \<lparr>Method = method, URL = uri, Body = data, Header = headers\<rparr>)"

text \<open>
  \<open>RefreshToken\<close> (here \<open>Tronity_RefreshToken\<close>, as \<open>RefreshToken\<close> is also a field of
  the token) ignores the token it is given. \<open>DoJSON\<close> sends the request and decodes the
  answer into \<open>token\<close>; the result is a pointer to \<open>token\<close> and the error of \<open>DoJSON\<close>.
  A \<open>nil\<close> pointer is \<open>None\<close>.
\<close>

definition Tronity_RefreshToken ::
  "(string \<Rightarrow> string \<Rightarrow> error option) \<Rightarrow> (string \<times> string) list \<Rightarrow>
   (request \<Rightarrow> oauth2_Token \<times> error option) \<Rightarrow> Tronity \<Rightarrow>
   oauth2_Token option \<times> error option" where
  "Tronity_RefreshToken validate JSONEncoding DoJSON v =
     (let data = [(''client_id'', ClientID (oc v)),
                  (''client_secret'', ClientSecret (oc v)),
                  (''grant_type'', ''app'')]
      in case request_New validate MethodPost (TokenURL (oc v)) data JSONEncoding of
           Inl err \<Rightarrow> (None, Some err)
         | Inr req \<Rightarrow> (let (token, err) = DoJSON req in (Some token, err)))"

subsection \<open>Construction\<close>

record ClientCredentials =
  ID :: string
  Secret :: string

record Tokens =
  Access :: string
  Refresh :: string

text \<open>The configuration struct \<open>cc\<close> after decoding.\<close>

record config =
  Credentials :: ClientCredentials
  Tokens :: Tokens
  VIN :: string
  Cache :: int

text \<open>An entry of the upstream vehicle list (\<open>tronity.Vehicle\<close>) has an id and a VIN.\<close>

record Vehicle =
  Vehicle_ID :: string
  Vehicle_VIN :: string

text \<open>
  \<open>strings.ToUpper\<close> of the standard library. On a string of ASCII bytes (every byte
  below \<open>utf8.RuneSelf\<close>, 128) the letters \<open>a\<close> to \<open>z\<close> are mapped to \<open>A\<close> to \<open>Z\<close> and
  every other byte stays. On any other string the library maps the runes with
  \<open>unicode.ToUpper\<close>; that mapping of whole strings is the parameter \<open>unicode_map\<close>.
\<close>

definition upper_byte :: "char \<Rightarrow> char" where
  "upper_byte c =
     (let n = (of_char c :: nat) in if 97 \<le> n \<and> n \<le> 122 then char_of (n - 32) else c)"

definition ToUpper :: "(string \<Rightarrow> string) \<Rightarrow> string \<Rightarrow> string" where
  "ToUpper unicode_map s =
     (if list_all (\<lambda>c. (of_char c :: nat) < 128) s then map upper_byte s else unicode_map s)"

text \<open>
  The loop over the vehicle list: every entry whose VIN equals the upper-cased configured
  VIN overwrites \<open>v.vid\<close>; there is no \<open>break\<close>.
\<close>

fun vin_loop :: "(string \<Rightarrow> string) \<Rightarrow> string \<Rightarrow> Vehicle list \<Rightarrow> string \<Rightarrow> string" where
  "vin_loop unicode_map vin [] vid' = vid'"
| "vin_loop unicode_map vin (vehicle # rest) vid' =
     vin_loop unicode_map vin rest
       (if Vehicle_VIN vehicle = ToUpper unicode_map vin then Vehicle_ID vehicle else vid')"

text \<open>Lines 101 to 109; \<open>v.vid\<close> is the empty string before.\<close>

definition select_vid :: "(string \<Rightarrow> string) \<Rightarrow> string \<Rightarrow> Vehicle list \<Rightarrow> string" where
  "select_vid unicode_map vin vehicles =
     (if vin = [] \<and> length vehicles = 1 then Vehicle_ID (vehicles ! 0)
      else vin_loop unicode_map vin vehicles [])"

text \<open>
  What the collaborators hand back during one construction, in the order of the calls:
  \<open>util.DecodeOther\<close> (an error, or the decoded \<open>cc\<close>), \<open>cc.Credentials.Error()\<close>,
  \<open>sponsor.IsAuthorized()\<close>, \<open>tronity.OAuth2Config\<close>, \<open>cc.Tokens.Error()\<close>,
  \<open>time.Now()\<close> and \<open>v.vehicles()\<close> (the list and the error of \<open>GetJSON\<close>). The last
  field is the library's rune mapping that \<open>strings.ToUpper\<close> falls back on.
\<close>

record steps =
  decoded :: "error + config"
  credentials_error :: "error option"
  authorized :: bool
  oauth2_config :: "error + oauth2_Config"
  tokens_error :: "error option"
  now :: int
  vehicles :: "Vehicle list \<times> error option"
  unicode_ToUpper :: "string \<Rightarrow> string"

text \<open>
  The constructor returns \<open>(nil, err)\<close> (here \<open>Inl err\<close>) or \<open>(v, nil)\<close> (here
  \<open>Inr v\<close>).
\<close>

definition NewTronityFromConfig :: "steps \<Rightarrow> error + Tronity" where
  "NewTronityFromConfig s =
     (case decoded s of
        Inl err \<Rightarrow> Inl err
      | Inr cc \<Rightarrow>
     (case credentials_error s of
        Some err \<Rightarrow> Inl err
      | None \<Rightarrow>
     if \<not> authorized s
     then Inl (OtherError ''tronity requires evcc sponsorship, register at https://cloud.evcc.io'')
     else
     (case oauth2_config s of
        Inl err \<Rightarrow> Inl err
      | Inr oc' \<Rightarrow>
     (let ts = (case tokens_error s of
                  Some err \<Rightarrow> RefreshTokenSource zero_Token
                | None \<Rightarrow> ConfigTokenSource oc'
                    \<lparr>AccessToken = Access (Tokens cc),
                     RefreshToken = Refresh (Tokens cc),
                     Expiry = now s\<rparr>);
          (vehicles', err) = vehicles s
      in case err of
           Some e \<Rightarrow> Inl e
         | None \<Rightarrow>
             (let vid' = select_vid (unicode_ToUpper s) (VIN cc) vehicles'
              in if vid' = [] then Inl (OtherError ''vin not found'')
                 else Inr \<lparr>oc = oc', vid = vid', Source = ts, bulkG_ttl = Cache cc\<rparr>)))))"

subsection \<open>The OAuth2 client's reuse rule\<close>




subsection \<open>Example collaborators\<close>

text \<open>An upstream that answers every POST with the given status.\<close>

definition answers :: "int \<Rightarrow> string \<Rightarrow> error + response" where
  "answers code uri = Inr \<lparr>StatusCode = code\<rparr>"

text \<open>A request check that accepts every method and address.\<close>

definition accepts :: "string \<Rightarrow> string \<Rightarrow> error option" where
  "accepts method uri = None"

text \<open>
  A token endpoint that issues a token to a request of grant type \<open>app\<close> and refuses
  any other with status 400.
\<close>

definition token_endpoint :: "request \<Rightarrow> oauth2_Token \<times> error option" where
  "token_endpoint req =
     (if map_of (Body req) ''grant_type'' = Some ''app''
      then (\<lparr>AccessToken = ''fresh'', RefreshToken = [], Expiry = 3600\<rparr>, None)
      else (zero_Token, Some (StatusError \<lparr>StatusCode = 400\<rparr>)))"

text \<open>An adapter as the constructor makes it in the app flow.\<close>

definition app_adapter :: Tronity where
  "app_adapter =
     \<lparr>oc = \<lparr>ClientID = ''id'', ClientSecret = ''secret'', TokenURL = ''token-url''\<rparr>,
      vid = ''v1'',
      Source = RefreshTokenSource zero_Token,
      bulkG_ttl = 60\<rparr>"

text \<open>
  A stand-in for the library's rune mapping. The strings of the examples are ASCII, for
  which \<open>ToUpper\<close> does not consult it.
\<close>

definition no_rune_mapping :: "string \<Rightarrow> string" where
  "no_rune_mapping s = s"

text \<open>
  A construction in which every collaborator succeeds and tokens are configured, for a
  configured VIN and an upstream vehicle list.
\<close>

definition all_succeed :: "string \<Rightarrow> Vehicle list \<Rightarrow> steps" where
  "all_succeed vin vs =
     \<lparr>decoded = Inr \<lparr>Credentials = \<lparr>ID = ''id'', Secret = ''secret''\<rparr>,
                      Tokens = \<lparr>Access = ''access'', Refresh = ''refresh''\<rparr>,
                      VIN = vin, Cache = 60\<rparr>,
      credentials_error = None,
      authorized = True,
      oauth2_config = Inr \<lparr>ClientID = ''id'', ClientSecret = ''secret'', TokenURL = ''token-url''\<rparr>,
      tokens_error = None,
      now = 1000,
      vehicles = (vs, None),
      unicode_ToUpper = no_rune_mapping\<rparr>"

section \<open>Properties\<close>

subsection \<open>Helper facts\<close>

lemma assert_Bulk_not_ok: "\<forall>b. res \<noteq> BulkVal b \<Longrightarrow> assert_Bulk res = (zero_Bulk, False)"
  by (cases res) simp_all

lemma post_response:
  "Post uri = Inr resp \<Longrightarrow>
   post Post uri =
     (if StatusCode resp = 405 then None
      else if StatusCode resp < 200 \<or> 300 \<le> StatusCode resp then Some (StatusError resp)
      else None)"
  by (simp add: post_def ResponseError_def HasStatus_def StatusMethodNotAllowed_def)

text \<open>The selection loop keeps the id of the last matching entry.\<close>

lemma vin_loop_cong:
  "ToUpper um vin' = ToUpper um vin \<Longrightarrow> vin_loop um vin' vs acc = vin_loop um vin vs acc"
  by (induction vs arbitrary: acc) simp_all

lemma vin_loop_last_match:
  "vin_loop um vin vs acc =
     (case filter (\<lambda>x. Vehicle_VIN x = ToUpper um vin) vs of
        [] \<Rightarrow> acc
      | m # ms \<Rightarrow> Vehicle_ID (last (m # ms)))"
proof (induction vs arbitrary: acc)
  case Nil
  show ?case by simp
next
  case (Cons x xs)
  show ?case
    by (cases "filter (\<lambda>x. Vehicle_VIN x = ToUpper um vin) xs") (simp_all add: Cons.IH)
qed

lemma select_vid_cong:
  assumes "ToUpper um vin' = ToUpper um vin" and "vin' \<noteq> []" and "vin \<noteq> []"
  shows "select_vid um vin' vs = select_vid um vin vs"
proof -
  have "vin_loop um vin' vs [] = vin_loop um vin vs []"
    using assms(1) by (rule vin_loop_cong)
  with assms(2,3) show ?thesis
    by (simp add: select_vid_def)
qed

lemma select_vid_last_match:
  "vin \<noteq> [] \<Longrightarrow>
   select_vid um vin vs =
     (case filter (\<lambda>x. Vehicle_VIN x = ToUpper um vin) vs of
        [] \<Rightarrow> []
      | m # ms \<Rightarrow> Vehicle_ID (last (m # ms)))"
  by (simp add: select_vid_def vin_loop_last_match)

lemma select_vid_no_match:
  assumes "\<not> (vin = [] \<and> length vs = 1)"
      and "\<forall>x\<in>set vs. Vehicle_VIN x \<noteq> ToUpper um vin"
  shows "select_vid um vin vs = []"
proof -
  from assms(2) have "filter (\<lambda>x. Vehicle_VIN x = ToUpper um vin) vs = []"
    by (simp add: filter_empty_conv)
  with assms(1) show ?thesis
    by (auto simp add: select_vid_def vin_loop_last_match)
qed


lemma NewTronityFromConfig_VIN:
  assumes "decoded s = Inr cc"
      and "select_vid (unicode_ToUpper s) vin' (fst (vehicles s))
             = select_vid (unicode_ToUpper s) (VIN cc) (fst (vehicles s))"
  shows "NewTronityFromConfig (s\<lparr>decoded := Inr (cc\<lparr>VIN := vin'\<rparr>)\<rparr>) = NewTronityFromConfig s"
  using assms
  by (cases "vehicles s")
     (simp add: NewTronityFromConfig_def Let_def split: option.splits sum.splits)

text \<open>
  With every other step succeeding, the constructor's result is decided by the selected
  id alone.
\<close>

lemma NewTronityFromConfig_selected:
  assumes "decoded s = Inr cc" and "credentials_error s = None" and "authorized s"
      and "oauth2_config s = Inr c" and "snd (vehicles s) = None"
  shows "NewTronityFromConfig s =
           (if select_vid (unicode_ToUpper s) (VIN cc) (fst (vehicles s)) = []
            then Inl (OtherError ''vin not found'')
            else Inr \<lparr>oc = c,
                      vid = select_vid (unicode_ToUpper s) (VIN cc) (fst (vehicles s)),
                      Source = (case tokens_error s of
                                  Some err \<Rightarrow> RefreshTokenSource zero_Token
                                | None \<Rightarrow> ConfigTokenSource c
                                    \<lparr>AccessToken = Access (Tokens cc),
                                     RefreshToken = Refresh (Tokens cc),
                                     Expiry = now s\<rparr>),
                      bulkG_ttl = Cache cc\<rparr>)"
  using assms
  by (cases "vehicles s") (simp add: NewTronityFromConfig_def Let_def)

subsection \<open>Charge status\<close>

text \<open>
  Claim C1, as stated, fails: for the snapshot of the spec's scenario, with charging state
  \<open>Idle\<close> and no error from the getter, \<open>Status\<close> returns disconnected (\<open>StatusA\<close>),
  not connected-not-charging (\<open>StatusB\<close>).
\<close>

theorem Status_Idle_counterexample:
  "fst (Status (BulkVal \<lparr>Level = 74, Bulk_Range = 318, Charging = ''Idle''\<rparr>, None)) = StatusA
   \<and> fst (Status (BulkVal \<lparr>Level = 74, Bulk_Range = 318, Charging = ''Idle''\<rparr>, None)) \<noteq> StatusB"
  by (simp add: Status_def)

text \<open>
  Claim C1, amended: for every bulk snapshot that the getter returns without error,
  \<open>Status\<close> returns charging when the charging-state string is \<open>Charging\<close> and
  disconnected for every other string (\<open>Idle\<close> among them), with no error; the result is
  one of the three enumerated states.
\<close>

theorem Status_of_snapshot:
  "Status (BulkVal b, None) = (if Charging b = ''Charging'' then StatusC else StatusA, None)
   \<and> fst (Status (BulkVal b, None)) \<in> {StatusA, StatusB, StatusC}"
  by (simp add: Status_def)

text \<open>
  Claim C2: when the getter returns an error, when the snapshot's charging-state string is
  not the one string the adapter maps (the missing, empty string among them), or when the
  value is no snapshot at all, \<open>Status\<close> returns disconnected together with the getter's
  error; whatever the getter returns, the status is one of the enumerated states.
\<close>

theorem Status_default_disconnected:
  "(err \<noteq> None \<longrightarrow> Status (res, err) = (StatusA, err))
   \<and> (Charging b \<noteq> ''Charging'' \<longrightarrow> Status (BulkVal b, err) = (StatusA, err))
   \<and> ((\<forall>b'. res \<noteq> BulkVal b') \<longrightarrow> Status (res, err) = (StatusA, err))
   \<and> fst (Status g) \<in> {StatusA, StatusB, StatusC}"
proof -
  have e: "err \<noteq> None \<longrightarrow> Status (res, err) = (StatusA, err)"
    by (cases "assert_Bulk res") (simp add: Status_def)
  have u: "Charging b \<noteq> ''Charging'' \<longrightarrow> Status (BulkVal b, err) = (StatusA, err)"
    by (simp add: Status_def)
  have m: "(\<forall>b'. res \<noteq> BulkVal b') \<longrightarrow> Status (res, err) = (StatusA, err)"
    by (simp add: Status_def assert_Bulk_not_ok)
  have r: "fst (Status g) \<in> {StatusA, StatusB, StatusC}"
    by (cases "fst (Status g)") simp_all
  from e u m r show ?thesis by blast
qed

theorem Status_default_disconnected_witness:
  "Status (NilVal, Some (OtherError ''timeout'')) = (StatusA, Some (OtherError ''timeout''))
   \<and> Status (BulkVal \<lparr>Level = 50, Bulk_Range = 200, Charging = []\<rparr>, None) = (StatusA, None)
   \<and> Status (BulkVal \<lparr>Level = 50, Bulk_Range = 200, Charging = ''Unknown''\<rparr>, None) = (StatusA, None)
   \<and> Status (OtherVal ''string'', None) = (StatusA, None)"
  using Status_default_disconnected
          [where err = "Some (OtherError ''timeout'')" and res = NilVal]
        Status_default_disconnected
          [where err = None and b = "\<lparr>Level = 50, Bulk_Range = 200, Charging = []\<rparr>"]
        Status_default_disconnected
          [where err = None and res = "OtherVal ''string''"
             and b = "\<lparr>Level = 50, Bulk_Range = 200, Charging = ''Unknown''\<rparr>"]
  by simp

subsection \<open>State of charge\<close>

text \<open>
  Claim C6: when the getter returns an error, \<open>SoC\<close> returns the value 0 together with
  that error; when it returns a snapshot and no error, \<open>SoC\<close> returns the snapshot's
  \<open>Level\<close> and no error.
\<close>

theorem SoC_error_or_level:
  "(err \<noteq> None \<longrightarrow> SoC (res, err) = (0, err))
   \<and> SoC (BulkVal b, None) = (Level b, None)"
proof -
  have e: "err \<noteq> None \<longrightarrow> SoC (res, err) = (0, err)"
    by (cases "assert_Bulk res") (simp add: SoC_def)
  have s: "SoC (BulkVal b, None) = (Level b, None)"
    by (simp add: SoC_def)
  from e s show ?thesis ..
qed

theorem SoC_error_or_level_witness:
  "SoC (NilVal, Some (OtherError ''timeout'')) = (0, Some (OtherError ''timeout''))
   \<and> SoC (BulkVal \<lparr>Level = 72.5, Bulk_Range = 310, Charging = ''Charging''\<rparr>, None)
       = (72.5, None)"
  using SoC_error_or_level
          [of "Some (OtherError ''timeout'')" NilVal
              "\<lparr>Level = 72.5, Bulk_Range = 310, Charging = ''Charging''\<rparr>"]
  by simp

subsection \<open>Type mismatch\<close>

text \<open>
  Claim C10: when the getter returns no error and a value that is not a
  \<open>tronity.Bulk\<close>, \<open>SoC\<close> and \<open>Range\<close> return 0 and \<open>Status\<close> returns
  disconnected, each with no error: the mismatch is not reported.
\<close>

theorem type_mismatch_absorbed:
  assumes "\<forall>b. res \<noteq> BulkVal b"
  shows "SoC (res, None) = (0, None)
         \<and> Tronity_Range to_int64 (res, None) = (0, None)
         \<and> Status (res, None) = (StatusA, None)"
  using assms
  by (simp add: SoC_def Tronity_Range_def Status_def assert_Bulk_not_ok)

theorem type_mismatch_absorbed_witness:
  "SoC (OtherVal ''string'', None) = (0, None)
   \<and> Tronity_Range floor (OtherVal ''string'', None) = (0, None)
   \<and> Status (OtherVal ''string'', None) = (StatusA, None)"
proof -
  have h: "\<forall>b. OtherVal ''string'' \<noteq> BulkVal b" by simp
  show ?thesis using type_mismatch_absorbed [OF h, of floor] by simp
qed

subsection \<open>Charge actions\<close>

text \<open>
  Claim C5: when the upstream answers the POST of \<open>StartCharge\<close> or \<open>StopCharge\<close> with
  status 405, the operation returns no error; when it answers with any other status
  outside 200 to 299, the operation returns an error (the status error of that response).
\<close>

theorem charge_action_method_not_allowed:
  assumes "Post (URI @ ''/v1/vehicles/'' @ vid v @ ''/charge_start'') = Inr r1"
      and "Post (URI @ ''/v1/vehicles/'' @ vid v @ ''/charge_stop'') = Inr r2"
  shows "(StatusCode r1 = 405 \<longrightarrow> StartCharge URI Post v = None)
       \<and> (StatusCode r2 = 405 \<longrightarrow> StopCharge URI Post v = None)
       \<and> ((StatusCode r1 < 200 \<or> 300 \<le> StatusCode r1) \<and> StatusCode r1 \<noteq> 405
            \<longrightarrow> StartCharge URI Post v = Some (StatusError r1))
       \<and> ((StatusCode r2 < 200 \<or> 300 \<le> StatusCode r2) \<and> StatusCode r2 \<noteq> 405
            \<longrightarrow> StopCharge URI Post v = Some (StatusError r2))"
  using assms by (simp add: StartCharge_def StopCharge_def post_response)

theorem charge_action_method_not_allowed_witness:
  "StartCharge ''uri'' (answers 405) app_adapter = None
   \<and> StopCharge ''uri'' (answers 405) app_adapter = None
   \<and> StartCharge ''uri'' (answers 500) app_adapter = Some (StatusError \<lparr>StatusCode = 500\<rparr>)
   \<and> StopCharge ''uri'' (answers 404) app_adapter = Some (StatusError \<lparr>StatusCode = 404\<rparr>)"
proof -
  have s1: "answers 405 (''uri'' @ ''/v1/vehicles/'' @ vid app_adapter @ ''/charge_start'')
              = Inr \<lparr>StatusCode = 405\<rparr>"
    by (simp add: answers_def)
  have s2: "answers 405 (''uri'' @ ''/v1/vehicles/'' @ vid app_adapter @ ''/charge_stop'')
              = Inr \<lparr>StatusCode = 405\<rparr>"
    by (simp add: answers_def)
  have s3: "answers 500 (''uri'' @ ''/v1/vehicles/'' @ vid app_adapter @ ''/charge_start'')
              = Inr \<lparr>StatusCode = 500\<rparr>"
    by (simp add: answers_def)
  have s4: "answers 404 (''uri'' @ ''/v1/vehicles/'' @ vid app_adapter @ ''/charge_stop'')
              = Inr \<lparr>StatusCode = 404\<rparr>"
    by (simp add: answers_def)
  have s5: "answers 500 (''uri'' @ ''/v1/vehicles/'' @ vid app_adapter @ ''/charge_stop'')
              = Inr \<lparr>StatusCode = 500\<rparr>"
    by (simp add: answers_def)
  have s6: "answers 404 (''uri'' @ ''/v1/vehicles/'' @ vid app_adapter @ ''/charge_start'')
              = Inr \<lparr>StatusCode = 404\<rparr>"
    by (simp add: answers_def)
  show ?thesis
    using charge_action_method_not_allowed [OF s1 s2]
          charge_action_method_not_allowed [OF s3 s5]
          charge_action_method_not_allowed [OF s6 s4]
    by simp
qed

subsection \<open>Vehicle selection\<close>

text \<open>
  Claim C4, as stated, fails: with the configured VIN \<open>wvw1\<close> and an upstream list whose
  only entry has the VIN \<open>wvw1\<close> in lower case, no vehicle is selected and construction
  ends with the error \<open>vin not found\<close>. The upstream VIN is compared as it is with the
  upper-cased configured VIN.
\<close>

theorem lower_case_upstream_vin_counterexample:
  "NewTronityFromConfig (all_succeed ''wvw1'' [\<lparr>Vehicle_ID = ''v1'', Vehicle_VIN = ''wvw1''\<rparr>])
     = Inl (OtherError ''vin not found'')"
proof -
  have "ToUpper no_rune_mapping ''wvw1'' = ''WVW1''"
    by code_simp
  then show ?thesis
    by (simp add: NewTronityFromConfig_def all_succeed_def select_vid_def)
qed

text \<open>
  Claim C4, amended: for every configured VIN that is not empty and every vehicle list
  returned by the upstream call, with the other construction steps succeeding,
  construction selects the vehicle whose VIN equals the upper-cased configured VIN, the
  last such entry of the list if there are several: it returns the adapter with that
  entry's id (when the id is not empty), and it fails with \<open>vin not found\<close> when no
  entry has that VIN. The letter case of the configured VIN does not matter: another
  configured VIN, not empty, with the same upper-casing gives the same construction. The
  upstream VIN is compared as it is.
\<close>

theorem vin_match_upper_cased_configured:
  assumes "decoded s = Inr cc" and "VIN cc \<noteq> []"
      and "credentials_error s = None" and "authorized s"
      and "oauth2_config s = Inr c" and "snd (vehicles s) = None"
  shows "(filter (\<lambda>x. Vehicle_VIN x = ToUpper (unicode_ToUpper s) (VIN cc)) (fst (vehicles s)) \<noteq> []
          \<and> Vehicle_ID (last (filter (\<lambda>x. Vehicle_VIN x = ToUpper (unicode_ToUpper s) (VIN cc))
                                       (fst (vehicles s)))) \<noteq> []
          \<longrightarrow> NewTronityFromConfig s =
                Inr \<lparr>oc = c,
                     vid = Vehicle_ID
                             (last (filter (\<lambda>x. Vehicle_VIN x = ToUpper (unicode_ToUpper s) (VIN cc))
                                           (fst (vehicles s)))),
                     Source = (case tokens_error s of
                                 Some err \<Rightarrow> RefreshTokenSource zero_Token
                               | None \<Rightarrow> ConfigTokenSource c
                                   \<lparr>AccessToken = Access (Tokens cc),
                                    RefreshToken = Refresh (Tokens cc),
                                    Expiry = now s\<rparr>),
                     bulkG_ttl = Cache cc\<rparr>)
       \<and> (filter (\<lambda>x. Vehicle_VIN x = ToUpper (unicode_ToUpper s) (VIN cc)) (fst (vehicles s)) = []
          \<longrightarrow> NewTronityFromConfig s = Inl (OtherError ''vin not found''))
       \<and> (vin' \<noteq> [] \<and> ToUpper (unicode_ToUpper s) vin' = ToUpper (unicode_ToUpper s) (VIN cc)
          \<longrightarrow> NewTronityFromConfig (s\<lparr>decoded := Inr (cc\<lparr>VIN := vin'\<rparr>)\<rparr>)
                = NewTronityFromConfig s)"
proof (intro conjI impI)
  let ?ms = "filter (\<lambda>x. Vehicle_VIN x = ToUpper (unicode_ToUpper s) (VIN cc)) (fst (vehicles s))"
  note new = NewTronityFromConfig_selected [OF assms(1,3,4,5,6)]
  {
    assume m: "?ms \<noteq> [] \<and> Vehicle_ID (last ?ms) \<noteq> []"
    then obtain y ys where ms: "?ms = y # ys"
      by (cases ?ms) auto
    with assms(2)
    have "select_vid (unicode_ToUpper s) (VIN cc) (fst (vehicles s)) = Vehicle_ID (last ?ms)"
      by (simp add: select_vid_last_match)
    with m new
    show "NewTronityFromConfig s =
            Inr \<lparr>oc = c, vid = Vehicle_ID (last ?ms),
                 Source = (case tokens_error s of
                             Some err \<Rightarrow> RefreshTokenSource zero_Token
                           | None \<Rightarrow> ConfigTokenSource c
                               \<lparr>AccessToken = Access (Tokens cc),
                                RefreshToken = Refresh (Tokens cc),
                                Expiry = now s\<rparr>),
                 bulkG_ttl = Cache cc\<rparr>"
      by simp
  }
  {
    assume "?ms = []"
    with assms(2)
    have "select_vid (unicode_ToUpper s) (VIN cc) (fst (vehicles s)) = []"
      by (simp add: select_vid_last_match)
    with new show "NewTronityFromConfig s = Inl (OtherError ''vin not found'')"
      by simp
  }
  {
    assume "vin' \<noteq> [] \<and> ToUpper (unicode_ToUpper s) vin' = ToUpper (unicode_ToUpper s) (VIN cc)"
    then have u: "ToUpper (unicode_ToUpper s) vin' = ToUpper (unicode_ToUpper s) (VIN cc)"
      and n: "vin' \<noteq> []"
      by simp_all
    from u n assms(2)
    have "select_vid (unicode_ToUpper s) vin' (fst (vehicles s))
            = select_vid (unicode_ToUpper s) (VIN cc) (fst (vehicles s))"
      by (rule select_vid_cong)
    with assms(1)
    show "NewTronityFromConfig (s\<lparr>decoded := Inr (cc\<lparr>VIN := vin'\<rparr>)\<rparr>) = NewTronityFromConfig s"
      by (rule NewTronityFromConfig_VIN)
  }
qed

theorem vin_match_upper_cased_configured_witness:
  "NewTronityFromConfig
     (all_succeed ''wvw1'' [\<lparr>Vehicle_ID = ''a'', Vehicle_VIN = ''WVW1''\<rparr>,
                            \<lparr>Vehicle_ID = ''b'', Vehicle_VIN = ''WVW2''\<rparr>,
                            \<lparr>Vehicle_ID = ''c'', Vehicle_VIN = ''WVW1''\<rparr>])
   = Inr \<lparr>oc = \<lparr>ClientID = ''id'', ClientSecret = ''secret'', TokenURL = ''token-url''\<rparr>,
          vid = ''c'',
          Source = ConfigTokenSource
                     \<lparr>ClientID = ''id'', ClientSecret = ''secret'', TokenURL = ''token-url''\<rparr>
                     \<lparr>AccessToken = ''access'', RefreshToken = ''refresh'', Expiry = 1000\<rparr>,
          bulkG_ttl = 60\<rparr>
   \<and> NewTronityFromConfig
     (all_succeed ''wvw1'' [\<lparr>Vehicle_ID = ''a'', Vehicle_VIN = ''WVW1''\<rparr>,
                            \<lparr>Vehicle_ID = ''b'', Vehicle_VIN = ''WVW2''\<rparr>])
   = Inr \<lparr>oc = \<lparr>ClientID = ''id'', ClientSecret = ''secret'', TokenURL = ''token-url''\<rparr>,
          vid = ''a'',
          Source = ConfigTokenSource
                     \<lparr>ClientID = ''id'', ClientSecret = ''secret'', TokenURL = ''token-url''\<rparr>
                     \<lparr>AccessToken = ''access'', RefreshToken = ''refresh'', Expiry = 1000\<rparr>,
          bulkG_ttl = 60\<rparr>
   \<and> NewTronityFromConfig
     (all_succeed ''wvw1'' [\<lparr>Vehicle_ID = ''a'', Vehicle_VIN = ''WVW2''\<rparr>,
                            \<lparr>Vehicle_ID = ''b'', Vehicle_VIN = ''WVW3''\<rparr>])
   = Inl (OtherError ''vin not found'')
   \<and> NewTronityFromConfig
     (all_succeed ''WvW1'' [\<lparr>Vehicle_ID = ''a'', Vehicle_VIN = ''WVW2''\<rparr>,
                            \<lparr>Vehicle_ID = ''b'', Vehicle_VIN = ''WVW1''\<rparr>])
   = NewTronityFromConfig
     (all_succeed ''wvw1'' [\<lparr>Vehicle_ID = ''a'', Vehicle_VIN = ''WVW2''\<rparr>,
                            \<lparr>Vehicle_ID = ''b'', Vehicle_VIN = ''WVW1''\<rparr>])"
proof -
  let ?c = "\<lparr>ClientID = ''id'', ClientSecret = ''secret'', TokenURL = ''token-url''\<rparr>"
  let ?cc = "\<lparr>Credentials = \<lparr>ID = ''id'', Secret = ''secret''\<rparr>,
              Tokens = \<lparr>Access = ''access'', Refresh = ''refresh''\<rparr>,
              VIN = ''wvw1'', Cache = 60\<rparr>"
  have d: "decoded (all_succeed ''wvw1'' vs) = Inr ?cc" for vs
    by (simp add: all_succeed_def)
  have n: "VIN ?cc \<noteq> []"
    by simp
  have ce: "credentials_error (all_succeed ''wvw1'' vs) = None" for vs
    by (simp add: all_succeed_def)
  have au: "authorized (all_succeed ''wvw1'' vs)" for vs
    by (simp add: all_succeed_def)
  have oa: "oauth2_config (all_succeed ''wvw1'' vs) = Inr ?c" for vs
    by (simp add: all_succeed_def)
  have ve: "snd (vehicles (all_succeed ''wvw1'' vs)) = None" for vs
    by (simp add: all_succeed_def)
  have f: "unicode_ToUpper (all_succeed ''wvw1'' vs) = no_rune_mapping"
    and g: "fst (vehicles (all_succeed ''wvw1'' vs)) = vs"
    and t: "tokens_error (all_succeed ''wvw1'' vs) = None"
    and w: "now (all_succeed ''wvw1'' vs) = 1000" for vs
    by (simp_all add: all_succeed_def)
  have u1: "ToUpper no_rune_mapping ''wvw1'' = ''WVW1''"
    by code_simp
  have u2: "ToUpper no_rune_mapping ''WvW1'' = ''WVW1''"
    by code_simp
  have upd: "(all_succeed ''wvw1'' vs)\<lparr>decoded := Inr (?cc\<lparr>VIN := ''WvW1''\<rparr>)\<rparr>
               = all_succeed ''WvW1'' vs" for vs
    by (simp add: all_succeed_def)
  have several: "NewTronityFromConfig
     (all_succeed ''wvw1'' [\<lparr>Vehicle_ID = ''a'', Vehicle_VIN = ''WVW1''\<rparr>,
                            \<lparr>Vehicle_ID = ''b'', Vehicle_VIN = ''WVW2''\<rparr>,
                            \<lparr>Vehicle_ID = ''c'', Vehicle_VIN = ''WVW1''\<rparr>])
   = Inr \<lparr>oc = ?c, vid = ''c'',
          Source = ConfigTokenSource ?c
                     \<lparr>AccessToken = ''access'', RefreshToken = ''refresh'', Expiry = 1000\<rparr>,
          bulkG_ttl = 60\<rparr>"
    using vin_match_upper_cased_configured
            [where s = "all_succeed ''wvw1''
               [\<lparr>Vehicle_ID = ''a'', Vehicle_VIN = ''WVW1''\<rparr>,
                    \<lparr>Vehicle_ID = ''b'', Vehicle_VIN = ''WVW2''\<rparr>,
                    \<lparr>Vehicle_ID = ''c'', Vehicle_VIN = ''WVW1''\<rparr>]",
             OF d n ce au oa ve, THEN conjunct1]
    by (simp add: f g t w u1)
  have first: "NewTronityFromConfig
     (all_succeed ''wvw1'' [\<lparr>Vehicle_ID = ''a'', Vehicle_VIN = ''WVW1''\<rparr>,
                            \<lparr>Vehicle_ID = ''b'', Vehicle_VIN = ''WVW2''\<rparr>])
   = Inr \<lparr>oc = ?c, vid = ''a'',
          Source = ConfigTokenSource ?c
                     \<lparr>AccessToken = ''access'', RefreshToken = ''refresh'', Expiry = 1000\<rparr>,
          bulkG_ttl = 60\<rparr>"
    using vin_match_upper_cased_configured
            [where s = "all_succeed ''wvw1''
               [\<lparr>Vehicle_ID = ''a'', Vehicle_VIN = ''WVW1''\<rparr>,
                    \<lparr>Vehicle_ID = ''b'', Vehicle_VIN = ''WVW2''\<rparr>]",
             OF d n ce au oa ve, THEN conjunct1]
    by (simp add: f g t w u1)
  have none: "NewTronityFromConfig
     (all_succeed ''wvw1'' [\<lparr>Vehicle_ID = ''a'', Vehicle_VIN = ''WVW2''\<rparr>,
                            \<lparr>Vehicle_ID = ''b'', Vehicle_VIN = ''WVW3''\<rparr>])
   = Inl (OtherError ''vin not found'')"
    using vin_match_upper_cased_configured
            [where s = "all_succeed ''wvw1''
               [\<lparr>Vehicle_ID = ''a'', Vehicle_VIN = ''WVW2''\<rparr>,
                    \<lparr>Vehicle_ID = ''b'', Vehicle_VIN = ''WVW3''\<rparr>]",
             OF d n ce au oa ve, THEN conjunct2, THEN conjunct1]
    by (simp add: f g u1)
  have "''WvW1'' \<noteq> [] \<and> ToUpper no_rune_mapping ''WvW1'' = ToUpper no_rune_mapping ''wvw1''"
    by (simp add: u1 u2)
  then have "NewTronityFromConfig
               ((all_succeed ''wvw1'' [\<lparr>Vehicle_ID = ''a'', Vehicle_VIN = ''WVW2''\<rparr>,
                                      \<lparr>Vehicle_ID = ''b'', Vehicle_VIN = ''WVW1''\<rparr>])
                  \<lparr>decoded := Inr (?cc\<lparr>VIN := ''WvW1''\<rparr>)\<rparr>)
             = NewTronityFromConfig
                 (all_succeed ''wvw1'' [\<lparr>Vehicle_ID = ''a'', Vehicle_VIN = ''WVW2''\<rparr>,
                                        \<lparr>Vehicle_ID = ''b'', Vehicle_VIN = ''WVW1''\<rparr>])"
    using vin_match_upper_cased_configured
            [where vin' = "''WvW1''" and s = "all_succeed ''wvw1''
               [\<lparr>Vehicle_ID = ''a'', Vehicle_VIN = ''WVW2''\<rparr>,
                            \<lparr>Vehicle_ID = ''b'', Vehicle_VIN = ''WVW1''\<rparr>]",
             OF d n ce au oa ve, THEN conjunct2, THEN conjunct2]
    by (simp add: f)
  then have same: "NewTronityFromConfig
     (all_succeed ''WvW1'' [\<lparr>Vehicle_ID = ''a'', Vehicle_VIN = ''WVW2''\<rparr>,
                            \<lparr>Vehicle_ID = ''b'', Vehicle_VIN = ''WVW1''\<rparr>])
   = NewTronityFromConfig
     (all_succeed ''wvw1'' [\<lparr>Vehicle_ID = ''a'', Vehicle_VIN = ''WVW2''\<rparr>,
                            \<lparr>Vehicle_ID = ''b'', Vehicle_VIN = ''WVW1''\<rparr>])"
    by (simp only: upd)
  from several first none same show ?thesis
    by (intro conjI)
qed

subsection \<open>Construction failures\<close>

text \<open>
  Claim C7, as stated, fails in its last part: with the configured VIN \<open>WVW1\<close> and an
  upstream list of two entries that both have this VIN, there is no unique match, yet
  construction succeeds with the id of the second entry.
\<close>

theorem duplicate_match_counterexample:
  "NewTronityFromConfig
     (all_succeed ''WVW1'' [\<lparr>Vehicle_ID = ''a'', Vehicle_VIN = ''WVW1''\<rparr>,
                            \<lparr>Vehicle_ID = ''b'', Vehicle_VIN = ''WVW1''\<rparr>])
   = Inr \<lparr>oc = \<lparr>ClientID = ''id'', ClientSecret = ''secret'', TokenURL = ''token-url''\<rparr>,
          vid = ''b'',
          Source = ConfigTokenSource
                     \<lparr>ClientID = ''id'', ClientSecret = ''secret'', TokenURL = ''token-url''\<rparr>
                     \<lparr>AccessToken = ''access'', RefreshToken = ''refresh'', Expiry = 1000\<rparr>,
          bulkG_ttl = 60\<rparr>"
proof -
  have "ToUpper no_rune_mapping ''WVW1'' = ''WVW1''"
    by code_simp
  then show ?thesis
    by (simp add: NewTronityFromConfig_def all_succeed_def select_vid_def)
qed

text \<open>
  Claim C7, amended: the constructor returns an error and no adapter instance exactly
  when a construction step fails (decoding the configuration, the credentials check, the
  sponsorship check, the OAuth2 configuration, the vehicle listing) or no vehicle id is
  selected; in particular it fails when no entry of the list has the upper-cased
  configured VIN (and the sole-entry rule does not apply). Several matching entries are
  not a failure.
\<close>

theorem construction_failure_no_instance:
  "((\<exists>e. decoded s = Inl e) \<or> (\<exists>e. credentials_error s = Some e) \<or> \<not> authorized s
      \<or> (\<exists>e. oauth2_config s = Inl e) \<or> (\<exists>e. snd (vehicles s) = Some e)
      \<or> (\<exists>cc. decoded s = Inr cc \<and> select_vid (unicode_ToUpper s) (VIN cc) (fst (vehicles s)) = []))
     = (\<exists>e. NewTronityFromConfig s = Inl e)
   \<and> (decoded s = Inr cc \<and> \<not> (VIN cc = [] \<and> length (fst (vehicles s)) = 1)
        \<and> (\<forall>x\<in>set (fst (vehicles s)). Vehicle_VIN x \<noteq> ToUpper (unicode_ToUpper s) (VIN cc))
       \<longrightarrow> (\<exists>e. NewTronityFromConfig s = Inl e))"
proof -
  have iff: "((\<exists>e. decoded s = Inl e) \<or> (\<exists>e. credentials_error s = Some e) \<or> \<not> authorized s
      \<or> (\<exists>e. oauth2_config s = Inl e) \<or> (\<exists>e. snd (vehicles s) = Some e)
      \<or> (\<exists>cc. decoded s = Inr cc \<and> select_vid (unicode_ToUpper s) (VIN cc) (fst (vehicles s)) = []))
     = (\<exists>e. NewTronityFromConfig s = Inl e)"
    by (cases "vehicles s")
       (auto simp add: NewTronityFromConfig_def Let_def split: sum.splits option.splits)
  have "\<exists>e. NewTronityFromConfig s = Inl e"
    if "decoded s = Inr cc" and "\<not> (VIN cc = [] \<and> length (fst (vehicles s)) = 1)"
      and "\<forall>x\<in>set (fst (vehicles s)). Vehicle_VIN x \<noteq> ToUpper (unicode_ToUpper s) (VIN cc)"
  proof -
    from that(2,3) have "select_vid (unicode_ToUpper s) (VIN cc) (fst (vehicles s)) = []"
      by (rule select_vid_no_match)
    with that(1) iff show ?thesis
      by blast
  qed
  with iff show ?thesis
    by blast
qed

theorem construction_failure_no_instance_witness:
  "(\<exists>e. NewTronityFromConfig
           (all_succeed ''WVW1'' [\<lparr>Vehicle_ID = ''v1'', Vehicle_VIN = ''WVW2''\<rparr>]) = Inl e)
   \<and> (\<exists>e. NewTronityFromConfig
           ((all_succeed ''WVW1'' [\<lparr>Vehicle_ID = ''v1'', Vehicle_VIN = ''WVW1''\<rparr>])
              \<lparr>credentials_error := Some (OtherError ''missing credentials id'')\<rparr>) = Inl e)"
proof -
  let ?s = "all_succeed ''WVW1'' [\<lparr>Vehicle_ID = ''v1'', Vehicle_VIN = ''WVW2''\<rparr>]"
  let ?cc = "\<lparr>Credentials = \<lparr>ID = ''id'', Secret = ''secret''\<rparr>,
              Tokens = \<lparr>Access = ''access'', Refresh = ''refresh''\<rparr>,
              VIN = ''WVW1'', Cache = 60\<rparr>"
  let ?t = "(all_succeed ''WVW1'' [\<lparr>Vehicle_ID = ''v1'', Vehicle_VIN = ''WVW1''\<rparr>])
              \<lparr>credentials_error := Some (OtherError ''missing credentials id'')\<rparr>"
  have u: "ToUpper no_rune_mapping ''WVW1'' = ''WVW1''"
    by code_simp
  have h: "decoded ?s = Inr ?cc \<and> \<not> (VIN ?cc = [] \<and> length (fst (vehicles ?s)) = 1)
           \<and> (\<forall>x\<in>set (fst (vehicles ?s)). Vehicle_VIN x \<noteq> ToUpper (unicode_ToUpper ?s) (VIN ?cc))"
    by (simp add: all_succeed_def u)
  have a: "\<exists>e. NewTronityFromConfig ?s = Inl e"
    using construction_failure_no_instance [of ?s ?cc] h by blast
  have k: "\<exists>e. credentials_error ?t = Some e"
    by simp
  have b: "\<exists>e. NewTronityFromConfig ?t = Inl e"
    using construction_failure_no_instance [of ?t ?cc] k by blast
  from a b show ?thesis ..
qed

subsection \<open>Stored tokens\<close>



subsection \<open>Token refresh in the app flow\<close>

text \<open>
  Claim C9: \<open>RefreshToken\<close> builds a POST request to the token address of the OAuth2
  configuration whose JSON body has exactly the members \<open>client_id\<close> and
  \<open>client_secret\<close> with the configured values and \<open>grant_type\<close> with the value
  \<open>app\<close>. When the request cannot be built, the error is returned and no token.
  Otherwise the request is sent, and the decoded token is returned together with the
  error of sending and decoding: none on success, the failure otherwise.
\<close>

theorem app_grant_refresh_request:
  "(validate MethodPost (TokenURL (oc v)) = Some e \<longrightarrow>
      Tronity_RefreshToken validate enc DoJSON v = (None, Some e))
   \<and> (validate MethodPost (TokenURL (oc v)) = None
        \<and> DoJSON \<lparr>Method = ''POST'', URL = TokenURL (oc v),
                   Body = [(''client_id'', ClientID (oc v)),
                           (''client_secret'', ClientSecret (oc v)),
                           (''grant_type'', ''app'')],
                   Header = enc\<rparr> = (token, err)
       \<longrightarrow> Tronity_RefreshToken validate enc DoJSON v = (Some token, err))"
  by (simp add: Tronity_RefreshToken_def request_New_def MethodPost_def)

theorem app_grant_refresh_request_witness:
  "Tronity_RefreshToken accepts [(''Content-Type'', ''application/json'')] token_endpoint
     app_adapter
   = (Some \<lparr>AccessToken = ''fresh'', RefreshToken = [], Expiry = 3600\<rparr>, None)"
proof -
  have h: "accepts MethodPost (TokenURL (oc app_adapter)) = None
        \<and> token_endpoint \<lparr>Method = ''POST'', URL = TokenURL (oc app_adapter),
                   Body = [(''client_id'', ClientID (oc app_adapter)),
                           (''client_secret'', ClientSecret (oc app_adapter)),
                           (''grant_type'', ''app'')],
                   Header = [(''Content-Type'', ''application/json'')]\<rparr>
          = (\<lparr>AccessToken = ''fresh'', RefreshToken = [], Expiry = 3600\<rparr>, None)"
    by (simp add: accepts_def token_endpoint_def)
  show ?thesis
    using app_grant_refresh_request
            [where validate = accepts and v = app_adapter and DoJSON = token_endpoint
               and enc = "[(''Content-Type'', ''application/json'')]"
               and token = "\<lparr>AccessToken = ''fresh'', RefreshToken = [], Expiry = 3600\<rparr>"
               and err = None]
          h
    by blast
qed

end
